theory Spec2Isabelle
  imports Complex_Main "HOL-Library.AList" "HOL-Library.List_Lexorder"
begin

section \<open>Python values shared by the client and the server\<close>

text \<open>
  A Python \<open>str\<close> is a sequence of Unicode code points, and \<open>len\<close> counts code
  points; a \<open>bytes\<close> object is a sequence of 8-bit values. A \<open>float\<close> returned by
  \<open>time.time()\<close> is only stored and subtracted, so it is a real number here.
\<close>

type_synonym str = "nat list"
type_synonym bytes = "char list"
type_synonym timestamp = real

text \<open>
  Functions of the Python standard library that the sources call and do not define.
  They are parameters of the model: \<open>str.encode\<close> (UTF-8, raising on a lone
  surrogate), \<open>bytes.decode('utf-8')\<close>, \<open>base64.b64encode(..).decode()\<close>,
  \<open>base64.b64decode\<close>, \<open>hashlib.sha256(..).digest()\<close>,
  \<open>hashlib.blake2b(data, key=.., digest_size=..).digest()\<close> (raising on a key longer
  than 64 bytes), and \<open>json.dumps\<close> of the metadata dictionary of an envelope.
\<close>

record stdlib =
  utf8_encode :: "str \<Rightarrow> bytes option"
  utf8_decode :: "bytes \<Rightarrow> str option"
  b64encode :: "bytes \<Rightarrow> str"
  b64decode :: "str \<Rightarrow> bytes option"
  sha256 :: "bytes \<Rightarrow> bytes"
  blake2b :: "bytes \<Rightarrow> bytes \<Rightarrow> nat \<Rightarrow> bytes option"
  json_dumps_metadata :: "timestamp \<Rightarrow> int \<Rightarrow> str"

section \<open>Trust manager: \<open>RiMayTikKeyManager\<close> (client/encryption.py)\<close>

text \<open>One value of the dictionary \<open>trusted_keys\<close>.\<close>

record trusted_key =
  key :: str
  fingerprint :: str
  added_at :: timestamp
  verified :: bool

record key_manager =
  trusted_keys :: "str \<rightharpoonup> trusted_key"
  key_verifications :: "str \<rightharpoonup> bool"
  key_expiry :: "str \<rightharpoonup> timestamp"

definition key_manager_init :: key_manager where
  "key_manager_init =
     \<lparr>trusted_keys = Map.empty, key_verifications = Map.empty, key_expiry = Map.empty\<rparr>"

datatype km_error = UnicodeEncodeError

text \<open>\<open>f'{b:02x}'\<close>: two lower-case hexadecimal digits, as code points.\<close>

definition hex_digit :: "nat \<Rightarrow> nat" where
  "hex_digit d = (if d < 10 then 48 + d else 87 + d)"

definition hex2 :: "char \<Rightarrow> str" where
  "hex2 b = [hex_digit (of_char b div 16), hex_digit (of_char b mod 16)]"

text \<open>\<open>':'.join(parts)\<close>; the code point of the colon is 58.\<close>

fun join_colon :: "str list \<Rightarrow> str" where
  "join_colon [] = []"
| "join_colon [p] = p"
| "join_colon (p # q # ps) = p @ [58] @ join_colon (q # ps)"

definition calculate_fingerprint :: "stdlib \<Rightarrow> str \<Rightarrow> km_error + str" where
  "calculate_fingerprint L public_key_pem =
     (case utf8_encode L public_key_pem of
        None \<Rightarrow> Inl UnicodeEncodeError
      | Some b \<Rightarrow> Inr (join_colon (map hex2 (take 16 (sha256 L b)))))"

text \<open>
  \<open>add_trusted_key(username, public_key, fingerprint=None)\<close>. The expression
  \<open>fingerprint or self.calculate_fingerprint(public_key)\<close> takes the argument unless it
  is \<open>None\<close> or the empty string. \<open>now\<close> is the value of \<open>time.time()\<close>. The entry of
  \<open>username\<close> is replaced as a whole, with \<open>"verified": False\<close>.
\<close>

definition add_trusted_key ::
  "stdlib \<Rightarrow> timestamp \<Rightarrow> key_manager \<Rightarrow> str \<Rightarrow> str \<Rightarrow> str option \<Rightarrow> km_error + key_manager"
where
  "add_trusted_key L now km username public_key fp =
     (case (case fp of
              None \<Rightarrow> calculate_fingerprint L public_key
            | Some f \<Rightarrow> if f = [] then calculate_fingerprint L public_key else Inr f) of
        Inl e \<Rightarrow> Inl e
      | Inr f \<Rightarrow>
          Inr (km\<lparr>trusted_keys := (trusted_keys km)(username \<mapsto>
                 \<lparr>key = public_key, fingerprint = f, added_at = now, verified = False\<rparr>)\<rparr>))"

text \<open>\<open>verify_key_fingerprint(username, fingerprint)\<close>: the returned boolean and the manager.\<close>

definition verify_key_fingerprint :: "key_manager \<Rightarrow> str \<Rightarrow> str \<Rightarrow> bool \<times> key_manager" where
  "verify_key_fingerprint km username fp =
     (case trusted_keys km username of
        Some r \<Rightarrow>
          (let stored_fingerprint = fingerprint r in
           if fp = stored_fingerprint
           then (True, km\<lparr>trusted_keys := (trusted_keys km)(username \<mapsto> r\<lparr>verified := True\<rparr>)\<rparr>)
           else (False, km))
      | None \<Rightarrow> (False, km))"

datatype level_name = High | Medium | Low

datatype security_status =
  Known_Key (st_verified: bool) (st_fingerprint: str) (st_key_age_days: real) (st_level: level_name)
| No_Key (st_level: level_name)

definition get_security_status :: "timestamp \<Rightarrow> key_manager \<Rightarrow> str \<Rightarrow> security_status" where
  "get_security_status now km username =
     (case trusted_keys km username of
        Some key_info \<Rightarrow>
          Known_Key (verified key_info) (fingerprint key_info)
            ((now - added_at key_info) / 86400)
            (if verified key_info then High else Medium)
      | None \<Rightarrow> No_Key Low)"

text \<open>
  The operations of the trust manager, as a caller can issue them one after another. A
  failed \<open>add_trusted_key\<close> raises before the assignment and leaves the manager as it was.
\<close>

datatype km_op =
  Add_Trusted_Key timestamp str str "str option"
| Verify_Key_Fingerprint str str
| Get_Security_Status timestamp str

fun km_step :: "stdlib \<Rightarrow> key_manager \<Rightarrow> km_op \<Rightarrow> key_manager" where
  "km_step L km (Add_Trusted_Key now u k fp) =
     (case add_trusted_key L now km u k fp of Inl e \<Rightarrow> km | Inr km' \<Rightarrow> km')"
| "km_step L km (Verify_Key_Fingerprint u fp) = snd (verify_key_fingerprint km u fp)"
| "km_step L km (Get_Security_Status now u) = km"

definition km_run :: "stdlib \<Rightarrow> key_manager \<Rightarrow> km_op list \<Rightarrow> key_manager" where
  "km_run L km ops = foldl (km_step L) km ops"

text \<open>Whether the record of \<open>u\<close> exists and carries \<open>verified = True\<close>.\<close>

definition is_verified :: "key_manager \<Rightarrow> str \<Rightarrow> bool" where
  "is_verified km u = (case trusted_keys km u of None \<Rightarrow> False | Some r \<Rightarrow> verified r)"

text \<open>Whether an operation is an \<open>add_trusted_key\<close> for the user \<open>u\<close>.\<close>

fun adds_key_for :: "str \<Rightarrow> km_op \<Rightarrow> bool" where
  "adds_key_for u (Add_Trusted_Key now u' k fp) = (u' = u)"
| "adds_key_for u _ = False"

section \<open>Encryption engine: \<open>RiMayTikEncryptionEngine\<close> (client/encryption.py)\<close>

subsection \<open>The \<open>cryptography\<close> package\<close>

datatype hash_algorithm = SHA256 | SHA512

datatype ec_curve = SECP256R1 | SECP384R1 | SECP521R1

text \<open>
  The calls into the \<open>cryptography\<close> package, which the repository does not define, are
  parameters of the model; \<open>'sk\<close> and \<open>'pk\<close> are its private and public key objects.
  A call that can raises returns an option, \<open>None\<close> standing for the exception.
  \<^item> \<open>rsa_generate_private_key key_size r\<close>, \<open>ec_generate_private_key curve r\<close>:
    key generation, \<open>r\<close> the randomness drawn;
  \<^item> \<open>public_key sk\<close>: \<open>sk.public_key()\<close>;
  \<^item> \<open>public_bytes_pem pk\<close>: \<open>pk.public_bytes(PEM, SubjectPublicKeyInfo).decode('utf-8')\<close>;
  \<^item> \<open>load_pem_public_key data\<close>;
  \<^item> \<open>exchange sk pk\<close>: \<open>sk.exchange(ec.ECDH(), pk)\<close>;
  \<^item> \<open>hkdf_derive algorithm length salt info key_material\<close>:
    \<open>HKDF(algorithm, length, salt, info).derive(key_material)\<close>;
  \<^item> \<open>gcm_encrypt key iv aad plaintext\<close>: \<open>Cipher(AES(key), GCM(iv)).encryptor()\<close>,
    \<open>authenticate_additional_data(aad)\<close>, then \<open>update(plaintext) + finalize()\<close>;
    the encryptor's tag is not part of the value, as the source never reads it;
  \<^item> \<open>gcm_decrypt key iv tag aad ciphertext\<close>: \<open>Cipher(AES(key), GCM(iv, tag)).decryptor()\<close>,
    \<open>authenticate_additional_data(aad)\<close>, then \<open>update(ciphertext) + finalize()\<close>;
  \<^item> \<open>pss_sign sk data r\<close>: \<open>sk.sign(data, PSS(MGF1(SHA256), MAX_LENGTH), SHA256)\<close>,
    \<open>r\<close> the salt drawn;
  \<^item> \<open>pss_verify pk signature data\<close>: whether \<open>pk.verify(signature, data, ...)\<close> returns
    without raising.
\<close>

record ('sk, 'pk) cryptography =
  rsa_generate_private_key :: "nat \<Rightarrow> nat \<Rightarrow> 'sk"
  ec_generate_private_key :: "ec_curve \<Rightarrow> nat \<Rightarrow> 'sk"
  public_key :: "'sk \<Rightarrow> 'pk"
  public_bytes_pem :: "'pk \<Rightarrow> str"
  load_pem_public_key :: "bytes \<Rightarrow> 'pk option"
  exchange :: "'sk \<Rightarrow> 'pk \<Rightarrow> bytes option"
  hkdf_derive :: "hash_algorithm \<Rightarrow> nat \<Rightarrow> bytes option \<Rightarrow> bytes \<Rightarrow> bytes \<Rightarrow> bytes"
  gcm_encrypt :: "bytes \<Rightarrow> bytes \<Rightarrow> bytes \<Rightarrow> bytes \<Rightarrow> bytes option"
  gcm_decrypt :: "bytes \<Rightarrow> bytes \<Rightarrow> bytes \<Rightarrow> bytes \<Rightarrow> bytes \<Rightarrow> bytes option"
  pss_sign :: "'sk \<Rightarrow> bytes \<Rightarrow> nat \<Rightarrow> bytes option"
  pss_verify :: "'pk \<Rightarrow> bytes \<Rightarrow> bytes \<Rightarrow> bool"

subsection \<open>Exceptions\<close>

text \<open>
  The exceptions of the engine. \<open>Lib_Error\<close> is any exception raised inside a library
  call, \<open>Key_Error\<close> a missing dictionary key, \<open>Type_Error\<close> the subscripting of
  \<open>None\<close>. The other constructors are the \<open>ValueError\<close>s the source raises, told apart
  by their messages: the failed integrity check, the bad signature, and the three
  wrappers \<open>f"...: {e}"\<close> around the exception \<open>e\<close> caught.
\<close>

datatype exn =
  Lib_Error
| Key_Error
| Type_Error
| Integrity_Check_Failed
| Bad_Signature
| Shared_Secret_Failed exn
| Encryption_Failed exn
| Decryption_Failed exn

text \<open>
  A method of the engine takes the engine and returns its result, a value or the
  exception raised, with the engine as the method left it: an assignment made before
  an exception stays.
\<close>

type_synonym ('a, 's) action = "'s \<Rightarrow> (exn + 'a) \<times> 's"

definition and_then :: "('a, 's) action \<Rightarrow> ('a \<Rightarrow> ('b, 's) action) \<Rightarrow> ('b, 's) action" where
  "and_then m f s = (case m s of (Inl x, s') \<Rightarrow> (Inl x, s') | (Inr a, s') \<Rightarrow> f a s')"

definition returns :: "'a \<Rightarrow> ('a, 's) action" where
  "returns a s = (Inr a, s)"

definition raises :: "exn \<Rightarrow> ('a, 's) action" where
  "raises x s = (Inl x, s)"

text \<open>A library call: its value, or \<open>Lib_Error\<close>.\<close>

text \<open>Reading an attribute of \<open>self\<close>.\<close>

definition attribute :: "('s \<Rightarrow> 'a) \<Rightarrow> ('a, 's) action" where
  "attribute f s = (Inr (f s), s)"

definition lib :: "'a option \<Rightarrow> ('a, 's) action" where
  "lib r s = (case r of None \<Rightarrow> (Inl Lib_Error, s) | Some a \<Rightarrow> (Inr a, s))"

text \<open>\<open>d[k]\<close> on a dictionary entry that may be absent.\<close>

definition subscript :: "'a option \<Rightarrow> ('a, 's) action" where
  "subscript r s = (case r of None \<Rightarrow> (Inl Key_Error, s) | Some a \<Rightarrow> (Inr a, s))"

text \<open>\<open>try: m  except Exception as e: raises ValueError(f"...: {e}")\<close>.\<close>

definition try_except :: "('a, 's) action \<Rightarrow> (exn \<Rightarrow> exn) \<Rightarrow> ('a, 's) action" where
  "try_except m wrap s = (case m s of (Inl x, s') \<Rightarrow> (Inl (wrap x), s') | (Inr a, s') \<Rightarrow> (Inr a, s'))"

subsection \<open>State of the engine\<close>

record security_param =
  rsa_key_size :: nat
  param_ec_curve :: ec_curve
  kdf_iterations :: nat
  key_rotation_hours :: nat

text \<open>\<open>self.security_params[level]\<close>: the table of \<open>_setup_security_level\<close>.\<close>

definition security_params :: "int \<Rightarrow> security_param option" where
  "security_params level =
     (if level = 1 then
        Some \<lparr>rsa_key_size = 2048, param_ec_curve = SECP256R1, kdf_iterations = 100000,
              key_rotation_hours = 24\<rparr>
      else if level = 2 then
        Some \<lparr>rsa_key_size = 3072, param_ec_curve = SECP384R1, kdf_iterations = 200000,
              key_rotation_hours = 12\<rparr>
      else if level = 3 then
        Some \<lparr>rsa_key_size = 4096, param_ec_curve = SECP521R1, kdf_iterations = 500000,
              key_rotation_hours = 6\<rparr>
      else None)"

text \<open>One value of the dictionary \<open>session_keys\<close>.\<close>

record session_state =
  chain_key_send :: bytes
  chain_key_receive :: bytes
  message_number :: int

text \<open>
  The attributes of the engine that its methods read or write. A key dictionary
  \<open>{'private': sk, 'public': pk}\<close> is a pair, \<open>None\<close> the attribute before generation.
  (\<open>key_store\<close> and \<open>backend\<close> are never used by the methods modelled.)
\<close>

record ('sk, 'pk) engine =
  security_level :: int
  identity_keys :: "('sk \<times> 'pk) option"
  ephemeral_keys :: "('sk \<times> 'pk) option"
  session_keys :: "str \<rightharpoonup> session_state"

definition engine_init :: "int \<Rightarrow> ('sk, 'pk) engine" where
  "engine_init level =
     \<lparr>security_level = level, identity_keys = None, ephemeral_keys = None,
      session_keys = Map.empty\<rparr>"

text \<open>
  What one call of \<open>encrypt_message\<close> draws from its environment, in the order of the
  source: the randomness of the ephemeral key, \<open>os.urandom(16)\<close>, \<open>os.urandom(12)\<close>,
  \<open>time.time()\<close> for the metadata, the randomness of the identity key (drawn only when
  \<open>sign_data\<close> has to generate one), the salt of the signature, \<open>uuid.uuid4().hex\<close> and
  \<open>time.time()\<close> for the envelope.
\<close>

record draws =
  ephemeral_entropy :: nat
  urandom_salt :: bytes
  urandom_iv :: bytes
  metadata_time :: timestamp
  identity_entropy :: nat
  pss_entropy :: nat
  uuid4_hex :: str
  envelope_time :: timestamp

text \<open>
  The dictionary \<open>encrypted_data\<close>. \<open>decrypt_message\<close> receives it from the network, so
  each entry it subscripts is optional: \<open>None\<close> is an absent key.
\<close>

record envelope =
  ciphertext :: "str option"
  iv :: "str option"
  salt :: "str option"
  ephemeral_public_key :: "str option"
  hmac :: "str option"
  metadata :: "str option"
  signature :: "str option"
  algorithm :: str
  message_id :: str
  timestamp :: timestamp

text \<open>An ASCII literal of the source as a \<open>str\<close>.\<close>

definition ascii :: "string \<Rightarrow> str" where
  "ascii cs = map of_char cs"

subsection \<open>Methods\<close>

definition generate_identity_keypair ::
  "('sk, 'pk) cryptography \<Rightarrow> nat \<Rightarrow> (unit, ('sk, 'pk) engine) action" where
  "generate_identity_keypair P r =
     and_then (\<lambda>e. subscript (security_params (security_level e)) e) (\<lambda>params e.
       let private = rsa_generate_private_key P (rsa_key_size params) r in
       (Inr (), e\<lparr>identity_keys := Some (private, public_key P private)\<rparr>))"

definition generate_ephemeral_keypair ::
  "('sk, 'pk) cryptography \<Rightarrow> nat \<Rightarrow> (unit, ('sk, 'pk) engine) action" where
  "generate_ephemeral_keypair P r =
     and_then (\<lambda>e. subscript (security_params (security_level e)) e) (\<lambda>params e.
       let private = ec_generate_private_key P (param_ec_curve params) r in
       (Inr (), e\<lparr>ephemeral_keys := Some (private, public_key P private)\<rparr>))"

text \<open>
  \<open>get_ephemeral_public_key_pem\<close>; \<open>r\<close> is drawn only when no ephemeral key exists.
\<close>

definition get_ephemeral_public_key_pem ::
  "('sk, 'pk) cryptography \<Rightarrow> nat \<Rightarrow> (str, ('sk, 'pk) engine) action" where
  "get_ephemeral_public_key_pem P r =
     and_then (\<lambda>e. if ephemeral_keys e = None then generate_ephemeral_keypair P r e else (Inr (), e))
       (\<lambda>_ e. case ephemeral_keys e of
                 None \<Rightarrow> (Inl Type_Error, e)
               | Some (private, public) \<Rightarrow> (Inr (public_bytes_pem P public), e))"

text \<open>
  \<open>derive_shared_secret\<close>: ECDH of the own ephemeral private key with the peer's key,
  then HKDF-SHA256 to 32 bytes. It changes nothing.
\<close>

definition derive_shared_secret ::
  "('sk, 'pk) cryptography \<Rightarrow> stdlib \<Rightarrow> str \<Rightarrow> (bytes, ('sk, 'pk) engine) action" where
  "derive_shared_secret P L peer_public_key_pem =
     try_except
       (and_then (lib (utf8_encode L peer_public_key_pem)) (\<lambda>pem.
        and_then (lib (load_pem_public_key P pem)) (\<lambda>peer_public_key.
        and_then (\<lambda>e. case ephemeral_keys e of
                    None \<Rightarrow> (Inl Type_Error, e)
                  | Some (private, public) \<Rightarrow> (Inr private, e)) (\<lambda>private.
        and_then (lib (exchange P private peer_public_key)) (\<lambda>shared_secret.
        returns (hkdf_derive P SHA256 32 None ''rimaytik_key_derivation'' shared_secret))))))
       Shared_Secret_Failed"

text \<open>\<open>sign_data\<close>: generates the identity key when there is none, then signs.\<close>

definition sign_data ::
  "('sk, 'pk) cryptography \<Rightarrow> stdlib \<Rightarrow> draws \<Rightarrow> bytes \<Rightarrow> (str, ('sk, 'pk) engine) action" where
  "sign_data P L d data =
     and_then (\<lambda>e. if identity_keys e = None
                then generate_identity_keypair P (identity_entropy d) e else (Inr (), e))
       (\<lambda>_.
     and_then (\<lambda>e. case identity_keys e of
                 None \<Rightarrow> (Inl Type_Error, e)
               | Some (private, public) \<Rightarrow> (Inr private, e)) (\<lambda>private.
     and_then (lib (pss_sign P private data (pss_entropy d))) (\<lambda>sg.
     returns (b64encode L sg))))"

text \<open>\<open>verify_signature\<close>: the bare \<open>except\<close> turns every exception into \<open>False\<close>.\<close>

definition verify_signature ::
  "('sk, 'pk) cryptography \<Rightarrow> stdlib \<Rightarrow> bytes \<Rightarrow> str \<Rightarrow> str \<Rightarrow> bool" where
  "verify_signature P L data sg public_key_pem =
     (case utf8_encode L public_key_pem of
        None \<Rightarrow> False
      | Some pem \<Rightarrow>
          (case load_pem_public_key P pem of
             None \<Rightarrow> False
           | Some pk \<Rightarrow>
               (case b64decode L sg of
                  None \<Rightarrow> False
                | Some raw \<Rightarrow> pss_verify P pk raw data)))"

text \<open>\<open>_ratchet_keys(user, new_shared_secret)\<close>.\<close>

definition ratchet_keys ::
  "('sk, 'pk) cryptography \<Rightarrow> str \<Rightarrow> bytes \<Rightarrow> ('sk, 'pk) engine \<Rightarrow> ('sk, 'pk) engine" where
  "ratchet_keys P user new_shared_secret e =
     (case session_keys e user of
        None \<Rightarrow>
          e\<lparr>session_keys := (session_keys e)(user \<mapsto>
              \<lparr>chain_key_send = new_shared_secret, chain_key_receive = new_shared_secret,
               message_number = 0\<rparr>)\<rparr>
      | Some st \<Rightarrow>
          (let new_keys = hkdf_derive P SHA256 64 None ''rimaytik_ratchet'' (chain_key_send st) in
           e\<lparr>session_keys := (session_keys e)(user \<mapsto>
              \<lparr>chain_key_send = take 32 new_keys, chain_key_receive = drop 32 new_keys,
               message_number = message_number st + 1\<rparr>)\<rparr>))"

text \<open>\<open>encrypt_message(message, recipient_public_key_pem)\<close>.\<close>

definition encrypt_message ::
  "('sk, 'pk) cryptography \<Rightarrow> stdlib \<Rightarrow> draws \<Rightarrow> str \<Rightarrow> str \<Rightarrow>
   (envelope, ('sk, 'pk) engine) action" where
  "encrypt_message P L d message recipient_public_key_pem =
     try_except
       (and_then (generate_ephemeral_keypair P (ephemeral_entropy d)) (\<lambda>_.
        and_then (derive_shared_secret P L recipient_public_key_pem) (\<lambda>shared_secret.
        let salt_bytes = urandom_salt d;
            key_material = hkdf_derive P SHA512 64 (Some salt_bytes)
                             ''rimaytik_message_encryption'' shared_secret;
            encryption_key = take 32 key_material;
            mac_key = drop 32 key_material;
            iv_bytes = urandom_iv d
        in
        and_then (attribute security_level) (\<lambda>level.
        and_then (lib (utf8_encode L (json_dumps_metadata L (metadata_time d) level)))
          (\<lambda>metadata_bytes.
        and_then (lib (utf8_encode L message)) (\<lambda>plaintext.
        and_then (lib (gcm_encrypt P encryption_key iv_bytes metadata_bytes plaintext))
          (\<lambda>ciphertext_bytes.
        and_then (lib (blake2b L (ciphertext_bytes @ iv_bytes @ metadata_bytes) mac_key 32))
          (\<lambda>hmac_bytes.
        and_then (sign_data P L d (ciphertext_bytes @ iv_bytes @ hmac_bytes)) (\<lambda>sg.
        and_then (get_ephemeral_public_key_pem P (ephemeral_entropy d)) (\<lambda>ephemeral_pem.
        returns
          \<lparr>ciphertext = Some (b64encode L ciphertext_bytes),
           iv = Some (b64encode L iv_bytes),
           salt = Some (b64encode L salt_bytes),
           ephemeral_public_key = Some ephemeral_pem,
           hmac = Some (b64encode L hmac_bytes),
           metadata = Some (b64encode L metadata_bytes),
           signature = Some sg,
           algorithm = ascii ''RiMayTik-ECDH-AES256-GCM-BLAKE2b'',
           message_id = ascii ''rimaytik_'' @ uuid4_hex d,
           timestamp = envelope_time d\<rparr>))))))))))
       Encryption_Failed"

text \<open>
  \<open>decrypt_message(encrypted_data, sender_public_key_pem)\<close>. The shared secret is the
  ECDH of the own ephemeral private key with the envelope's ephemeral key, used as it
  is. The decryptor is given the envelope's \<open>hmac\<close> as its tag.
\<close>

definition decrypt_message ::
  "('sk, 'pk) cryptography \<Rightarrow> stdlib \<Rightarrow> envelope \<Rightarrow> str \<Rightarrow> (str, ('sk, 'pk) engine) action" where
  "decrypt_message P L encrypted_data sender_public_key_pem =
     try_except
       (and_then (subscript (ephemeral_public_key encrypted_data)) (\<lambda>ephemeral_pem.
        and_then (lib (utf8_encode L ephemeral_pem)) (\<lambda>pem.
        and_then (lib (load_pem_public_key P pem)) (\<lambda>sender_ephemeral_key.
        and_then (\<lambda>e. case ephemeral_keys e of
                    None \<Rightarrow> (Inl Type_Error, e)
                  | Some (private, public) \<Rightarrow> (Inr private, e)) (\<lambda>private.
        and_then (lib (exchange P private sender_ephemeral_key)) (\<lambda>shared_secret.
        and_then (subscript (salt encrypted_data)) (\<lambda>salt_text.
        and_then (lib (b64decode L salt_text)) (\<lambda>salt_bytes.
        let key_material = hkdf_derive P SHA512 64 (Some salt_bytes)
                             ''rimaytik_message_encryption'' shared_secret;
            encryption_key = take 32 key_material;
            mac_key = drop 32 key_material
        in
        and_then (subscript (ciphertext encrypted_data)) (\<lambda>ciphertext_text.
        and_then (lib (b64decode L ciphertext_text)) (\<lambda>ciphertext_bytes.
        and_then (subscript (iv encrypted_data)) (\<lambda>iv_text.
        and_then (lib (b64decode L iv_text)) (\<lambda>iv_bytes.
        and_then (subscript (hmac encrypted_data)) (\<lambda>hmac_text.
        and_then (lib (b64decode L hmac_text)) (\<lambda>hmac_bytes.
        and_then (subscript (metadata encrypted_data)) (\<lambda>metadata_text.
        and_then (lib (b64decode L metadata_text)) (\<lambda>metadata_bytes.
        and_then (lib (blake2b L (ciphertext_bytes @ iv_bytes @ metadata_bytes) mac_key 32))
          (\<lambda>expected_hmac.
        if hmac_bytes \<noteq> expected_hmac then raises Integrity_Check_Failed
        else
        and_then (subscript (signature encrypted_data)) (\<lambda>sg.
        if \<not> verify_signature P L (ciphertext_bytes @ iv_bytes @ hmac_bytes) sg
               sender_public_key_pem
        then raises Bad_Signature
        else
        and_then (lib (gcm_decrypt P encryption_key iv_bytes hmac_bytes metadata_bytes
                    ciphertext_bytes)) (\<lambda>plaintext.
        and_then (\<lambda>e. (Inr (), ratchet_keys P sender_public_key_pem shared_secret e)) (\<lambda>_.
        lib (utf8_decode L plaintext)))))))))))))))))))))
       Decryption_Failed"

section \<open>Account store: \<open>RiMayTikDatabase\<close> (server/database.py)\<close>

text \<open>
  The tables the modelled functions touch, each a list of rows in insertion order. A
  timestamp column holds a point of time; an SQL comparison of two timestamps is the
  order of time. \<open>users_sequence\<close> is the AUTOINCREMENT counter of \<open>rimaytik_users\<close>:
  the largest id ever given.
\<close>

datatype user_status = Online | Offline | Banned

record user_row =
  u_id :: int
  u_username :: str
  u_display_name :: str
  u_public_key :: str
  u_password_hash :: str
  u_last_login :: "timestamp option"
  u_last_seen :: "timestamp option"
  u_status :: user_status
  u_security_level :: int

datatype meta_type = Text_Message | System_Message

record meta_row =
  m_message_uuid :: str
  m_sender_id :: int
  m_receiver_id :: int
  m_conversation_hash :: str
  m_message_type :: meta_type
  m_timestamp :: timestamp

record session_row =
  s_user_id :: int
  s_session_token :: str
  s_device_info :: str
  s_ip_address :: str
  s_created_at :: timestamp
  s_expires_at :: timestamp
  s_active :: bool

record database =
  users :: "user_row list"
  users_sequence :: int
  messages_meta :: "meta_row list"
  security_sessions :: "session_row list"

text \<open>
  Library functions of the server: \<open>bcrypt.hashpw(password.encode(), salt).decode()\<close>,
  \<open>hashlib.sha256(s.encode()).hexdigest()\<close>, \<open>json.dumps\<close>, the formatting of an
  integer in an f-string, and \<open>datetime.isoformat\<close>.
\<close>

record server_lib =
  bcrypt_hashpw :: "str \<Rightarrow> nat \<Rightarrow> str"
  sha256_hexdigest :: "str \<Rightarrow> str"
  format_int :: "int \<Rightarrow> str"
  format_float :: "timestamp \<Rightarrow> str"
  isoformat :: "timestamp \<Rightarrow> str"


text \<open>
  \<open>register_rimaytik_user\<close>; \<open>current_timestamp\<close> is the database clock and
  \<open>gensalt\<close> the salt drawn by \<open>bcrypt.gensalt()\<close>. The first INSERT fails on a
  username already present (UNIQUE), the second on a message uuid already present; both
  failures are the \<open>IntegrityError\<close> the function turns into \<open>None\<close>, the second after
  the user row is committed.
\<close>

definition register_rimaytik_user ::
  "server_lib \<Rightarrow> timestamp \<Rightarrow> nat \<Rightarrow> database \<Rightarrow> str \<Rightarrow> str option \<Rightarrow> str \<Rightarrow> str \<Rightarrow>
   int option \<times> database" where
  "register_rimaytik_user S current_timestamp gensalt base name display pubkey password =
     (let password_hash = bcrypt_hashpw S password gensalt in
      if name \<in> u_username ` set (users base) then (None, base)
      else
        let new_id = users_sequence base + 1;
            base1 = base\<lparr>users := users base @
              [\<lparr>u_id = new_id, u_username = name,
                u_display_name = (case display of None \<Rightarrow> name
                                  | Some dn \<Rightarrow> if dn = [] then name else dn),
                u_public_key = pubkey, u_password_hash = password_hash,
                u_last_login = None, u_last_seen = None, u_status = Online,
                u_security_level = 2\<rparr>],
              users_sequence := new_id\<rparr>;
            uuid = ascii ''welcome_'' @ format_int S new_id
        in if uuid \<in> m_message_uuid ` set (messages_meta base1) then (None, base1)
           else (Some new_id,
                 base1\<lparr>messages_meta := messages_meta base1 @
                   [\<lparr>m_message_uuid = uuid, m_sender_id = 0, m_receiver_id = new_id,
                     m_conversation_hash = sha256_hexdigest S uuid,
                     m_message_type = System_Message,
                     m_timestamp = current_timestamp\<rparr>]\<rparr>))"

text \<open>
  \<open>get_rimaytik_online_users\<close>: the rows with status online and a \<open>last_seen\<close> within
  the last five minutes (a NULL \<open>last_seen\<close> fails the comparison), ordered by display
  name. Each result is \<open>(username, display_name, security_level)\<close>.
\<close>

definition get_rimaytik_online_users :: "timestamp \<Rightarrow> database \<Rightarrow> (str \<times> str \<times> int) list" where
  "get_rimaytik_online_users current_timestamp base =
     map (\<lambda>row. (u_username row, u_display_name row, u_security_level row))
       (sort_key u_display_name
          (filter (\<lambda>row. u_status row = Online \<and>
                     (case u_last_seen row of None \<Rightarrow> False
                      | Some seen \<Rightarrow> seen > current_timestamp - 300))
             (users base)))"



datatype db_error = IntegrityError

text \<open>
  \<open>create_rimaytik_session\<close>: \<open>now\<close> is \<open>datetime.now()\<close>, in seconds;
  \<open>expires_at = now + timedelta(hours=expires_hours)\<close>. The INSERT raises
  \<open>IntegrityError\<close> on a token already present (UNIQUE); \<open>created_at\<close> and \<open>active\<close>
  take their defaults, the database clock and TRUE.
\<close>

definition create_rimaytik_session ::
  "timestamp \<Rightarrow> timestamp \<Rightarrow> database \<Rightarrow> int \<Rightarrow> str \<Rightarrow> str \<Rightarrow> str \<Rightarrow> int \<Rightarrow>
   db_error + str \<times> database" where
  "create_rimaytik_session now current_timestamp base user_id token device_info ip_address
     expires_hours =
     (let expires_at = now + 3600 * real_of_int expires_hours in
      if token \<in> s_session_token ` set (security_sessions base) then Inl IntegrityError
      else Inr (token, base\<lparr>security_sessions := security_sessions base @
                  [\<lparr>s_user_id = user_id, s_session_token = token, s_device_info = device_info,
                    s_ip_address = ip_address, s_created_at = current_timestamp,
                    s_expires_at = expires_at, s_active = True\<rparr>]\<rparr>))"


record system_stats =
  total_users :: nat
  stats_online_users :: nat
  total_messages :: nat
  active_sessions :: nat

definition get_rimaytik_system_stats :: "database \<Rightarrow> system_stats" where
  "get_rimaytik_system_stats base =
     \<lparr>total_users = length (users base),
      stats_online_users = length (filter (\<lambda>row. u_status row = Online) (users base)),
      total_messages = length (messages_meta base),
      active_sessions = length (filter s_active (security_sessions base))\<rparr>"


section \<open>Protocol messages: \<open>RiMayTikMessage\<close> (shared/protocol.py)\<close>

datatype message_type =
  RIMAYTIK_REGISTER | RIMAYTIK_LOGIN | RIMAYTIK_LOGOUT
| RIMAYTIK_KEY_EXCHANGE | RIMAYTIK_KEY_VERIFY
| RIMAYTIK_DIRECT_MESSAGE | RIMAYTIK_GROUP_MESSAGE | RIMAYTIK_SYSTEM_MESSAGE
| RIMAYTIK_ONLINE_USERS | RIMAYTIK_USER_STATUS | RIMAYTIK_CONTACT_REQUEST
| RIMAYTIK_CONTACT_ACCEPT
| RIMAYTIK_FILE_TRANSFER_REQUEST | RIMAYTIK_FILE_TRANSFER_DATA
| RIMAYTIK_SECURITY_ALERT | RIMAYTIK_ENCRYPTION_INIT
| RIMAYTIK_ERROR | RIMAYTIK_SUCCESS

text \<open>A JSON value as a client sends it, and its truth value in Python.\<close>

datatype json =
  JNull | JBool bool | JNum real | JStr str | JList "json list" | JDict "(str \<times> json) list"


text \<open>
  The Russian string literals of server/main.py that the modelled handlers put into
  their replies, each with its source line and its meaning:
  \<^item> \<open>Insufficient_Registration_Data\<close>, line 130: not enough data for the registration;
  \<^item> \<open>Password_Too_Short\<close>, line 137: the password must have at least 8 characters;
  \<^item> \<open>Registration_Successful\<close>, line 183: the registration succeeded;
  \<^item> \<open>Username_Taken\<close>, line 191: the user name is already taken;
  \<^item> \<open>Incomplete_Message_Data\<close>, line 304: incomplete message data;
  \<^item> \<open>Recipient_Not_Online\<close>, line 348 (\<open>Poluchatel' ne v seti\<close>): the recipient is
    not online;
  \<^item> \<open>Will_Be_Delivered_At_Next_Login\<close>, line 350 (\<open>Soobshchenie budet dostavleno pri
    sleduyushchem vkhode\<close>): the message will be delivered at the next login;
  \<^item> \<open>Logged_Out\<close>, line 404: you have left the messenger.
\<close>

datatype server_text =
  Insufficient_Registration_Data
| Password_Too_Short
| Registration_Successful
| Username_Taken
| Incomplete_Message_Data
| Recipient_Not_Online
| Will_Be_Delivered_At_Next_Login
| Logged_Out


text \<open>The values of the \<open>data\<close> dictionary of a message.\<close>

datatype data_value =
  V_json json
| V_text server_text
| V_str str
| V_num real
| V_nat nat
| V_int int
| V_bool bool
| V_users "(str \<times> str \<times> int) list"
| V_stats system_stats


record rimaytik_message =
  msg_type :: message_type
  msg_data :: "(string \<times> data_value) list"
  msg_sender :: "str option"
  msg_receiver :: "str option"
  msg_id :: str
  msg_timestamp :: timestamp
  msg_signature :: "str option"

text \<open>
  The constructor with \<open>__post_init__\<close>: a missing or empty message id becomes
  \<open>f"rimaytik_{uuid.uuid4().hex}"\<close>, a missing or zero timestamp becomes \<open>time.time()\<close>.
  \<open>fresh_hex\<close> and \<open>now\<close> are the values drawn.
\<close>

definition new_message ::
  "str \<Rightarrow> timestamp \<Rightarrow> message_type \<Rightarrow> (string \<times> data_value) list \<Rightarrow> str option \<Rightarrow>
   str option \<Rightarrow> str option \<Rightarrow> timestamp option \<Rightarrow> rimaytik_message" where
  "new_message fresh_hex now mtype mdata msender mreceiver mid mtime =
     \<lparr>msg_type = mtype, msg_data = mdata, msg_sender = msender, msg_receiver = mreceiver,
      msg_id = (case mid of None \<Rightarrow> ascii ''rimaytik_'' @ fresh_hex
                | Some i \<Rightarrow> if i = [] then ascii ''rimaytik_'' @ fresh_hex else i),
      msg_timestamp = (case mtime of None \<Rightarrow> now | Some t \<Rightarrow> if t = 0 then now else t),
      msg_signature = None\<rparr>"

section \<open>Connection registry and relay: \<open>RiMayTikServer\<close> (server/main.py)\<close>

text \<open>
  A stream writer is named by a number. The network holds, for each writer, the frames
  written to it so far (a frame is the message whose \<open>to_json().encode()\<close> was written),
  and the set of writers whose connection is lost: \<open>write\<close> followed by \<open>drain\<close> on such
  a writer raises \<open>ConnectionResetError\<close>.
\<close>

type_synonym writer = nat

record network =
  outbox :: "writer \<Rightarrow> rimaytik_message list"
  lost :: "writer set"

datatype server_exception = AttributeError | ConnectionResetError | Database_Error db_error

definition write_drain ::
  "network \<Rightarrow> writer \<Rightarrow> rimaytik_message \<Rightarrow> server_exception + network" where
  "write_drain wire w frame =
     (if w \<in> lost wire then Inl ConnectionResetError
      else Inr (wire\<lparr>outbox := (outbox wire)(w := outbox wire w @ [frame])\<rparr>))"

text \<open>
  The attributes of the server that the handlers use, with the network it writes to.
  \<open>clients\<close> is a dictionary in insertion order: username to
  \<open>(writer, public_key, session_token)\<close>. (\<open>message_queue\<close> is created by \<open>__init__\<close>
  and used nowhere.)
\<close>

record server =
  db :: database
  clients :: "(str \<times> writer \<times> str \<times> str) list"
  online_users :: "str set"
  net :: network

text \<open>
  What one call of a handler draws: the clock (every reading during the call gives
  \<open>clock\<close>), the hexadecimal uuids of the messages it builds, by position, and the
  bcrypt salt.
\<close>

record server_draws =
  clock :: timestamp
  uuid_hex :: "nat \<Rightarrow> str"
  bcrypt_salt :: nat

text \<open>
  \<open>broadcast_rimaytik_online_users\<close>: the loop writes the update to the writer of every
  client in turn; a failed write is skipped.
\<close>

definition broadcast_rimaytik_online_users ::
  "server_lib \<Rightarrow> server_draws \<Rightarrow> server \<Rightarrow> server" where
  "broadcast_rimaytik_online_users S dr srv =
     (let online = get_rimaytik_online_users (clock dr) (db srv);
          update_msg = new_message (uuid_hex dr 0) (clock dr) RIMAYTIK_ONLINE_USERS
            [(''users'', V_users online), (''total_online'', V_nat (length online)),
             (''update_time'', V_str (isoformat S (clock dr)))] None None None None
      in srv\<lparr>net := foldl (\<lambda>wire (name, w, pubkey, token).
                  case write_drain wire w update_msg of Inl x \<Rightarrow> wire | Inr wire' \<Rightarrow> wire')
                (net srv) (clients srv)\<rparr>)"

text \<open>
  \<open>self.cursor\<close> and \<open>self.conn\<close> in a method of \<open>RiMayTikServer\<close>: the class defines no
  such attribute and \<open>__init__\<close> assigns only \<open>host\<close>, \<open>port\<close>, \<open>ssl_context\<close>, \<open>db\<close>,
  \<open>clients\<close>, \<open>online_users\<close> and \<open>message_queue\<close> (the cursor and the connection are
  attributes of \<open>self.db\<close>), so the attribute access raises \<open>AttributeError\<close>.
\<close>

definition self_cursor :: "server \<Rightarrow> server_exception + database" where
  "self_cursor srv = Inl AttributeError"

text \<open>
  \<open>handle_user_logout(username)\<close>. After the entry is deleted and the name discarded
  from the online set, the statement \<open>self.cursor.execute(...)\<close> is evaluated; what
  follows it in the source (the UPDATE setting the status offline, the commit, the
  broadcast) is the second branch.
\<close>

definition handle_user_logout ::
  "server_lib \<Rightarrow> server_draws \<Rightarrow> server \<Rightarrow> str option \<Rightarrow> (server_exception + unit) \<times> server"
where
  "handle_user_logout S dr srv username =
     (case username of
        None \<Rightarrow> (Inr (), srv)
      | Some name \<Rightarrow>
          if name \<in> fst ` set (clients srv) then
            let srv1 = srv\<lparr>clients := AList.delete name (clients srv)\<rparr>;
                srv2 = srv1\<lparr>online_users := online_users srv1 - {name}\<rparr>
            in case self_cursor srv2 of
                 Inl x \<Rightarrow> (Inl x, srv2)
               | Inr base \<Rightarrow>
                   let base' = base\<lparr>users := map (\<lambda>row. if u_username row = name
                                    then row\<lparr>u_status := Offline, u_last_seen := Some (clock dr)\<rparr>
                                    else row) (users base)\<rparr>;
                       srv3 = srv2\<lparr>db := base'\<rparr>
                   in (Inr (), broadcast_rimaytik_online_users S dr srv3)
          else (Inr (), srv))"

definition handle_rimaytik_logout ::
  "server_lib \<Rightarrow> server_draws \<Rightarrow> server \<Rightarrow> str option \<Rightarrow>
   (server_exception + rimaytik_message) \<times> server" where
  "handle_rimaytik_logout S dr srv username =
     (case handle_user_logout S dr srv username of
        (Inl x, srv') \<Rightarrow> (Inl x, srv')
      | (Inr u, srv') \<Rightarrow>
          (Inr (new_message (uuid_hex dr 1) (clock dr) RIMAYTIK_SUCCESS
                  [(''message'', V_text Logged_Out)] None None None None), srv'))"


text \<open>
  The \<open>data\<close> dictionary of a registration request, read with \<open>data.get\<close>: each entry
  is a string, or \<open>None\<close> when the key is absent or null.
\<close>

record register_data =
  reg_username :: "str option"
  reg_display_name :: "str option"
  reg_public_key :: "str option"
  reg_password :: "str option"
  reg_security_level :: "int option"

text \<open>Python's truth value of an optional string: neither \<open>None\<close> nor empty.\<close>

definition truthy_str :: "str option \<Rightarrow> bool" where
  "truthy_str v = (case v of None \<Rightarrow> False | Some s \<Rightarrow> s \<noteq> [])"

text \<open>\<open>handle_rimaytik_register(data, writer, client_ip)\<close>.\<close>

definition handle_rimaytik_register ::
  "server_lib \<Rightarrow> server_draws \<Rightarrow> server \<Rightarrow> register_data \<Rightarrow> writer \<Rightarrow> str \<Rightarrow>
   (server_exception + rimaytik_message) \<times> server" where
  "handle_rimaytik_register S dr srv request w client_ip =
     (if \<not> (truthy_str (reg_username request) \<and> truthy_str (reg_public_key request) \<and>
             truthy_str (reg_password request))
      then (Inr (new_message (uuid_hex dr 0) (clock dr) RIMAYTIK_ERROR
                   [(''error'', V_text Insufficient_Registration_Data)] None None None None), srv)
      else
        case (reg_username request, reg_public_key request, reg_password request) of
          (Some name, Some pubkey, Some password) \<Rightarrow>
            if length password < 8
            then (Inr (new_message (uuid_hex dr 0) (clock dr) RIMAYTIK_ERROR
                         [(''error'', V_text Password_Too_Short)] None None None None), srv)
            else
              (case register_rimaytik_user S (clock dr) (bcrypt_salt dr) (db srv) name
                      (reg_display_name request) pubkey password of
                 (Some user_id, base1) \<Rightarrow>
                   if user_id = 0
                   then (Inr (new_message (uuid_hex dr 0) (clock dr) RIMAYTIK_ERROR
                                [(''error'', V_text Username_Taken)] None None None None),
                         srv\<lparr>db := base1\<rparr>)
                   else
                     let session_token = take 32 (sha256_hexdigest S
                           (name @ pubkey @ format_float S (clock dr)))
                     in (case create_rimaytik_session (clock dr) (clock dr) base1 user_id
                               session_token (ascii ''RiMayTik Client '' @ client_ip) client_ip 24 of
                           Inl x \<Rightarrow> (Inl (Database_Error x), srv\<lparr>db := base1\<rparr>)
                         | Inr (tok, base2) \<Rightarrow>
                             let srv1 = srv\<lparr>db := base2,
                                   clients := AList.update name (w, pubkey, session_token)
                                     (clients srv),
                                   online_users := insert name (online_users srv)\<rparr>;
                                 srv2 = broadcast_rimaytik_online_users S
                                   (dr\<lparr>uuid_hex := (\<lambda>i. uuid_hex dr (Suc i))\<rparr>) srv1;
                                 stats = get_rimaytik_system_stats (db srv2)
                             in (Inr (new_message (uuid_hex dr 2) (clock dr) RIMAYTIK_SUCCESS
                                        [(''success'', V_bool True), (''user_id'', V_int user_id),
                                         (''session_token'', V_str session_token),
                                         (''message'', V_text Registration_Successful),
                                         (''stats'', V_stats stats),
                                         (''online_users'', V_nat (card (online_users srv2)))]
                                        None None None None), srv2))
               | (None, base1) \<Rightarrow>
                   (Inr (new_message (uuid_hex dr 0) (clock dr) RIMAYTIK_ERROR
                           [(''error'', V_text Username_Taken)] None None None None),
                    srv\<lparr>db := base1\<rparr>))
        | _ \<Rightarrow> (Inr (new_message (uuid_hex dr 0) (clock dr) RIMAYTIK_ERROR
                   [(''error'', V_text Insufficient_Registration_Data)] None None None None), srv))"

section \<open>Example values\<close>

text \<open>
  Concrete values for the closed examples. The two libraries are stand-ins with the
  interfaces of the real ones: identity encodings, constant digests and key material,
  key objects that are numbers (an even number an RSA key, an odd one an elliptic-curve
  key, the public key equal to the private one), a cipher that reverses its input. The
  decryptor of \<open>example_crypto\<close> accepts no tag longer than 16 bytes; the one of
  \<open>lenient_crypto\<close> accepts every tag.
\<close>

definition example_stdlib :: stdlib where
  "example_stdlib =
     \<lparr>utf8_encode = (\<lambda>s. Some (map char_of s)),
      utf8_decode = (\<lambda>b. Some (map of_char b)),
      b64encode = (\<lambda>b. map of_char b),
      b64decode = (\<lambda>s. Some (map char_of s)),
      sha256 = (\<lambda>b. ''0123456789abcdef0123456789abcdef''),
      blake2b = (\<lambda>d k n. if length k > 64 then None else Some (replicate n (CHR ''m''))),
      json_dumps_metadata = (\<lambda>t l. [123, 125])\<rparr>"

definition km_alice :: key_manager where
  "km_alice = key_manager_init\<lparr>trusted_keys :=
     [[97] \<mapsto> \<lparr>key = [1, 2, 3], fingerprint = [102, 112], added_at = 5, verified = False\<rparr>]\<rparr>"

definition example_crypto :: "(nat, nat) cryptography" where
  "example_crypto =
     \<lparr>rsa_generate_private_key = (\<lambda>size r. 2 * r),
      ec_generate_private_key = (\<lambda>curve r. 2 * r + 1),
      public_key = (\<lambda>sk. sk),
      public_bytes_pem = (\<lambda>pk. [pk]),
      load_pem_public_key = (\<lambda>b. case b of [c] \<Rightarrow> Some (of_char c) | _ \<Rightarrow> None),
      exchange = (\<lambda>sk pk. if odd sk \<and> odd pk then Some [char_of (sk * pk)] else None),
      hkdf_derive = (\<lambda>alg n salt info ikm. replicate n (CHR ''k'')),
      gcm_encrypt = (\<lambda>k i aad pt. if length k = 32 then Some (rev pt) else None),
      gcm_decrypt = (\<lambda>k i tag aad ct. if 16 < length tag then None else Some (rev ct)),
      pss_sign = (\<lambda>sk data r. if even sk then Some (CHR ''S'' # data) else None),
      pss_verify = (\<lambda>pk sg data. even pk \<and> sg = CHR ''S'' # data)\<rparr>"

definition example_draws :: draws where
  "example_draws =
     \<lparr>ephemeral_entropy = 1, urandom_salt = ''0123456789abcdef'', urandom_iv = ''0123456789ab'',
      metadata_time = 100, identity_entropy = 2, pss_entropy = 7, uuid4_hex = [48],
      envelope_time = 100\<rparr>"

definition example_envelope :: envelope where
  "example_envelope =
     \<lparr>ciphertext = Some (map of_char ''ih''),
      iv = Some (map of_char ''0123456789ab''),
      salt = Some (map of_char ''0123456789abcdef''),
      ephemeral_public_key = Some [3],
      hmac = Some (map of_char (replicate 32 (CHR ''m''))),
      metadata = Some (map of_char (map char_of [123, 125 :: nat])),
      signature = Some (map of_char (CHR ''S'' # ''ih'' @ ''0123456789ab'' @ replicate 32 (CHR ''m''))),
      algorithm = ascii ''RiMayTik-ECDH-AES256-GCM-BLAKE2b'',
      message_id = ascii ''rimaytik_'' @ [48],
      timestamp = 100\<rparr>"

definition sender_after :: "(nat, nat) engine" where
  "sender_after = \<lparr>security_level = 2, identity_keys = Some (4, 4), ephemeral_keys = Some (3, 3),
      session_keys = Map.empty\<rparr>"

definition receiver_engine :: "(nat, nat) engine" where
  "receiver_engine = \<lparr>security_level = 2, identity_keys = None, ephemeral_keys = Some (5, 5),
      session_keys = Map.empty\<rparr>"

definition lenient_crypto :: "(nat, nat) cryptography" where
  "lenient_crypto = example_crypto\<lparr>gcm_decrypt := (\<lambda>k i tag aad ct. Some (rev ct))\<rparr>"


definition empty_database :: database where
  "empty_database = \<lparr>users = [], users_sequence = 0, messages_meta = [], security_sessions = []\<rparr>"


definition example_server_lib :: server_lib where
  "example_server_lib =
     \<lparr>bcrypt_hashpw = (\<lambda>password gensalt. 36 # password),
      sha256_hexdigest = (\<lambda>s. replicate 64 48),
      format_int = (\<lambda>i. [nat i]),
      format_float = (\<lambda>t. [46]),
      isoformat = (\<lambda>t. [84])\<rparr>"

definition example_draws_server :: server_draws where
  "example_draws_server = \<lparr>clock = 1000, uuid_hex = (\<lambda>i. [48 + i]), bcrypt_salt = 0\<rparr>"

definition alice_row :: user_row where
  "alice_row = \<lparr>u_id = 1, u_username = [97], u_display_name = [65], u_public_key = [107],
     u_password_hash = [36], u_last_login = None, u_last_seen = Some 990, u_status = Online,
     u_security_level = 2\<rparr>"

definition example_server :: server where
  "example_server =
     \<lparr>db = empty_database\<lparr>users := [alice_row], users_sequence := 1\<rparr>,
      clients = [([97], 7, [107], [116])],
      online_users = {[97]},
      net = \<lparr>outbox = (\<lambda>w. []), lost = {}\<rparr>\<rparr>"


section \<open>Properties of the trust manager\<close>

lemma verify_key_fingerprint_result:
  "fst (verify_key_fingerprint km u fp) =
     (\<exists>r. trusted_keys km u = Some r \<and> fingerprint r = fp)"
  by (auto simp: verify_key_fingerprint_def Let_def split: option.splits)

lemma verify_key_fingerprint_false_state:
  "\<not> fst (verify_key_fingerprint km u fp) \<Longrightarrow> snd (verify_key_fingerprint km u fp) = km"
  by (auto simp: verify_key_fingerprint_def Let_def split: option.splits)

lemma verify_key_fingerprint_true_state:
  "trusted_keys km u = Some r \<Longrightarrow> fingerprint r = fp \<Longrightarrow>
   snd (verify_key_fingerprint km u fp) =
     km\<lparr>trusted_keys := (trusted_keys km)(u \<mapsto> r\<lparr>verified := True\<rparr>)\<rparr>"
  by (simp add: verify_key_fingerprint_def)

text \<open>
  C9. \<open>verify_key_fingerprint\<close> is a total function returning a boolean. It returns
  \<open>True\<close> exactly when a record for the username exists and the candidate equals its
  stored fingerprint; then the stored record becomes verified and nothing else changes
  (the other fields of the record, the records of other users, the other dictionaries).
  In every other case, a missing record included, it returns \<open>False\<close> and the manager
  is unchanged.
\<close>

theorem verify_key_fingerprint_spec:
  "(fst (verify_key_fingerprint km u fp) \<longleftrightarrow>
      (\<exists>r. trusted_keys km u = Some r \<and> fingerprint r = fp)) \<and>
   (\<forall>r. trusted_keys km u = Some r \<and> fingerprint r = fp \<longrightarrow>
      snd (verify_key_fingerprint km u fp) =
        km\<lparr>trusted_keys := (trusted_keys km)(u \<mapsto> r\<lparr>verified := True\<rparr>)\<rparr>) \<and>
   (\<not> fst (verify_key_fingerprint km u fp) \<longrightarrow> snd (verify_key_fingerprint km u fp) = km) \<and>
   (trusted_keys km u = None \<longrightarrow> verify_key_fingerprint km u fp = (False, km))"
proof (intro conjI allI impI)
  show "fst (verify_key_fingerprint km u fp) \<longleftrightarrow>
      (\<exists>r. trusted_keys km u = Some r \<and> fingerprint r = fp)"
    by (rule verify_key_fingerprint_result)
next
  fix r assume "trusted_keys km u = Some r \<and> fingerprint r = fp"
  then show "snd (verify_key_fingerprint km u fp) =
        km\<lparr>trusted_keys := (trusted_keys km)(u \<mapsto> r\<lparr>verified := True\<rparr>)\<rparr>"
    by (simp add: verify_key_fingerprint_true_state)
next
  assume "\<not> fst (verify_key_fingerprint km u fp)"
  then show "snd (verify_key_fingerprint km u fp) = km"
    by (rule verify_key_fingerprint_false_state)
next
  assume "trusted_keys km u = None"
  then show "verify_key_fingerprint km u fp = (False, km)"
    by (simp add: verify_key_fingerprint_def)
qed

theorem verify_key_fingerprint_spec_witness:
  "fst (verify_key_fingerprint km_alice [97] [102, 112]) \<and>
   is_verified (snd (verify_key_fingerprint km_alice [97] [102, 112])) [97] \<and>
   verify_key_fingerprint km_alice [97] [102] = (False, km_alice) \<and>
   verify_key_fingerprint km_alice [98] [102, 112] = (False, km_alice)"
proof -
  have r: "trusted_keys km_alice [97] =
      Some \<lparr>key = [1, 2, 3], fingerprint = [102, 112], added_at = 5, verified = False\<rparr>"
    by (simp add: km_alice_def key_manager_init_def)
  have n: "trusted_keys km_alice [98] = None"
    by (simp add: km_alice_def key_manager_init_def)
  from verify_key_fingerprint_spec [of km_alice "[97]" "[102, 112]"] r
  have a: "fst (verify_key_fingerprint km_alice [97] [102, 112])"
    and b: "is_verified (snd (verify_key_fingerprint km_alice [97] [102, 112])) [97]"
    by (simp_all add: is_verified_def)
  from verify_key_fingerprint_spec [of km_alice "[97]" "[102]"] r
  have c: "verify_key_fingerprint km_alice [97] [102] = (False, km_alice)"
    by (simp add: prod_eq_iff)
  from verify_key_fingerprint_spec [of km_alice "[98]" "[102, 112]"] n
  have d: "verify_key_fingerprint km_alice [98] [102, 112] = (False, km_alice)"
    by simp
  from a b c d show ?thesis by simp
qed

lemma km_step_keeps_verified:
  "is_verified km u \<Longrightarrow> \<not> adds_key_for u op \<Longrightarrow> is_verified (km_step L km op) u"
proof (cases op)
  case (Add_Trusted_Key now u' k fp)
  assume "is_verified km u" "\<not> adds_key_for u op"
  with Add_Trusted_Key show ?thesis
    by (auto simp: add_trusted_key_def is_verified_def split: sum.splits option.splits)
next
  case (Verify_Key_Fingerprint u' fp)
  assume "is_verified km u"
  with Verify_Key_Fingerprint show ?thesis
    by (auto simp: verify_key_fingerprint_def is_verified_def Let_def split: option.splits)
next
  case (Get_Security_Status now u')
  assume "is_verified km u"
  with Get_Security_Status show ?thesis by simp
qed

lemma km_run_keeps_verified:
  "is_verified km u \<Longrightarrow> \<forall>op \<in> set ops. \<not> adds_key_for u op \<Longrightarrow>
   is_verified (km_run L km ops) u"
  unfolding km_run_def
proof (induction ops arbitrary: km)
  case Nil
  then show ?case by simp
next
  case (Cons op ops)
  from Cons.prems have "is_verified (km_step L km op) u"
    by (simp add: km_step_keeps_verified)
  with Cons show ?case by simp
qed

lemma km_step_sets_verified:
  assumes "\<not> is_verified km u" and "is_verified (km_step L km op) u"
  shows "\<exists>fp r. op = Verify_Key_Fingerprint u fp \<and> trusted_keys km u = Some r \<and> fingerprint r = fp"
proof (cases op)
  case (Add_Trusted_Key now u' k fp)
  with assms show ?thesis
    by (auto simp: add_trusted_key_def is_verified_def split: sum.splits option.splits if_splits)
next
  case (Verify_Key_Fingerprint u' fp)
  with assms show ?thesis
    by (auto simp: verify_key_fingerprint_def is_verified_def Let_def
        split: option.splits if_splits)
next
  case (Get_Security_Status now u')
  with assms show ?thesis by simp
qed

lemma add_trusted_key_unverified:
  "add_trusted_key L now km u k fp = Inr km' \<Longrightarrow> \<not> is_verified km' u"
  by (auto simp: add_trusted_key_def is_verified_def split: sum.splits option.splits if_splits)

text \<open>
  C5, as stated, fails: \<open>add_trusted_key\<close> stores \<open>"verified": False\<close> whenever it is
  called, also for a user whose record was verified. After adding a key for the user
  with code points \<open>[97]\<close>, verifying its fingerprint and adding the key again, the
  record is no longer verified.
\<close>

theorem verified_downgrade_counterexample:
  "is_verified (km_run example_stdlib key_manager_init
      [Add_Trusted_Key 5 [97] [1, 2, 3] (Some [102, 112]),
       Verify_Key_Fingerprint [97] [102, 112]]) [97] \<and>
   \<not> is_verified (km_run example_stdlib key_manager_init
      [Add_Trusted_Key 5 [97] [1, 2, 3] (Some [102, 112]),
       Verify_Key_Fingerprint [97] [102, 112],
       Add_Trusted_Key 6 [97] [1, 2, 3] (Some [102, 112])]) [97]"
  by (simp add: km_run_def add_trusted_key_def verify_key_fingerprint_def
      key_manager_init_def is_verified_def)

text \<open>
  C5, amended. A step of the trust manager turns the verified flag of a user from false
  to true only when the step is \<open>verify_key_fingerprint\<close> for that user with a candidate
  equal to the stored fingerprint. Once true, the flag stays true along every sequence
  of operations that holds no \<open>add_trusted_key\<close> for that user; a successful
  \<open>add_trusted_key\<close> for the user replaces the record by an unverified one.
\<close>

theorem verified_flag_lifecycle:
  "(\<not> is_verified km u \<and> is_verified (km_step L km op) u \<longrightarrow>
      (\<exists>fp r. op = Verify_Key_Fingerprint u fp \<and> trusted_keys km u = Some r \<and>
         fingerprint r = fp)) \<and>
   (is_verified km u \<and> (\<forall>op \<in> set ops. \<not> adds_key_for u op) \<longrightarrow>
      is_verified (km_run L km ops) u) \<and>
   (\<forall>km'. add_trusted_key L now km u k f = Inr km' \<longrightarrow> \<not> is_verified km' u)"
proof (intro conjI impI allI)
  assume "\<not> is_verified km u \<and> is_verified (km_step L km op) u"
  then show "\<exists>fp r. op = Verify_Key_Fingerprint u fp \<and> trusted_keys km u = Some r \<and>
         fingerprint r = fp"
    using km_step_sets_verified [of km u L op] by blast
next
  assume "is_verified km u \<and> (\<forall>op \<in> set ops. \<not> adds_key_for u op)"
  then show "is_verified (km_run L km ops) u"
    by (simp add: km_run_keeps_verified)
next
  fix km' assume "add_trusted_key L now km u k f = Inr km'"
  then show "\<not> is_verified km' u" by (rule add_trusted_key_unverified)
qed

theorem verified_flag_lifecycle_witness:
  "\<not> is_verified km_alice [97] \<and>
   is_verified (km_step example_stdlib km_alice (Verify_Key_Fingerprint [97] [102, 112])) [97] \<and>
   is_verified (km_run example_stdlib
      (km_step example_stdlib km_alice (Verify_Key_Fingerprint [97] [102, 112]))
      [Verify_Key_Fingerprint [97] [1], Add_Trusted_Key 7 [98] [4] None,
       Get_Security_Status 8 [97]]) [97] \<and>
   (\<exists>km'. add_trusted_key example_stdlib 9
      (km_step example_stdlib km_alice (Verify_Key_Fingerprint [97] [102, 112]))
      [97] [1, 2, 3] None = Inr km' \<and> \<not> is_verified km' [97])"
proof -
  let ?km1 = "km_step example_stdlib km_alice (Verify_Key_Fingerprint [97] [102, 112])"
  let ?ops = "[Verify_Key_Fingerprint [97] [1], Add_Trusted_Key 7 [98] [4] None,
       Get_Security_Status 8 [97]]"
  have a: "\<not> is_verified km_alice [97]"
    by (simp add: km_alice_def key_manager_init_def is_verified_def)
  have b: "is_verified ?km1 [97]"
    by (simp add: km_alice_def key_manager_init_def is_verified_def verify_key_fingerprint_def)
  have c: "\<forall>op \<in> set ?ops. \<not> adds_key_for [97] op" by simp
  obtain km' where d: "add_trusted_key example_stdlib 9 ?km1 [97] [1, 2, 3] None = Inr km'"
    by (simp add: add_trusted_key_def calculate_fingerprint_def example_stdlib_def)
  from verified_flag_lifecycle [of ?km1 "[97]" example_stdlib
      "Get_Security_Status 0 []" ?ops 9 "[1, 2, 3]" None] b c d
  have "is_verified (km_run example_stdlib ?km1 ?ops) [97]" and "\<not> is_verified km' [97]"
    by blast+
  with a b d show ?thesis by blast
qed

section \<open>Properties of the encryption engine\<close>

subsection \<open>Methods that return\<close>

lemma and_then_Inr:
  "and_then m f s = (Inr b, s'') \<longleftrightarrow> (\<exists>a s'. m s = (Inr a, s') \<and> f a s' = (Inr b, s''))"
  by (auto simp: and_then_def split: prod.splits sum.splits)

lemma lib_Inr: "lib r s = (Inr a, s') \<longleftrightarrow> r = Some a \<and> s' = s"
  by (auto simp: lib_def split: option.splits)

lemma subscript_Inr: "subscript r s = (Inr a, s') \<longleftrightarrow> r = Some a \<and> s' = s"
  by (auto simp: subscript_def split: option.splits)

lemma try_except_Inr: "try_except m w s = (Inr a, s') \<longleftrightarrow> m s = (Inr a, s')"
  by (auto simp: try_except_def split: prod.splits sum.splits)


lemma raises_Inr: "raises x s \<noteq> (Inr b, s')"
  by (simp add: raises_def)


lemma and_then_lib_Some: "r = Some a \<Longrightarrow> and_then (lib r) f s = f a s"
  by (simp add: and_then_def lib_def)

lemma and_then_subscript_Some: "r = Some a \<Longrightarrow> and_then (subscript r) f s = f a s"
  by (simp add: and_then_def subscript_def)

lemma try_except_raises: "try_except (raises x) w s = (Inl (w x), s)"
  by (simp add: try_except_def raises_def)

lemma keys_Inr:
  "(case ephemeral_keys e of None \<Rightarrow> (Inl Type_Error, e) | Some (private, public) \<Rightarrow> (Inr private, e)) = (Inr a, s')
   \<longleftrightarrow> (\<exists>public. ephemeral_keys e = Some (a, public)) \<and> s' = e"
  by (auto split: option.splits)

lemma decrypt_message_Inr:
  assumes "decrypt_message P L env sender e = (Inr text, e')"
  shows "\<exists>eph pem key private public shared st sb ct cb it ib ht hb mt mb sg plaintext.
     ephemeral_public_key env = Some eph \<and> utf8_encode L eph = Some pem \<and>
     load_pem_public_key P pem = Some key \<and> ephemeral_keys e = Some (private, public) \<and>
     exchange P private key = Some shared \<and>
     salt env = Some st \<and> b64decode L st = Some sb \<and>
     ciphertext env = Some ct \<and> b64decode L ct = Some cb \<and>
     iv env = Some it \<and> b64decode L it = Some ib \<and>
     hmac env = Some ht \<and> b64decode L ht = Some hb \<and>
     metadata env = Some mt \<and> b64decode L mt = Some mb \<and>
     blake2b L (cb @ ib @ mb)
       (drop 32 (hkdf_derive P SHA512 64 (Some sb) ''rimaytik_message_encryption'' shared)) 32 = Some hb \<and>
     signature env = Some sg \<and> verify_signature P L (cb @ ib @ hb) sg sender \<and>
     gcm_decrypt P (take 32 (hkdf_derive P SHA512 64 (Some sb) ''rimaytik_message_encryption'' shared))
       ib hb mb cb = Some plaintext \<and>
     utf8_decode L plaintext = Some text \<and>
     e' = ratchet_keys P sender shared e"
  using assms unfolding decrypt_message_def try_except_Inr
  apply (simp only: and_then_Inr lib_Inr subscript_Inr keys_Inr Let_def)
  apply (auto simp: and_then_Inr lib_Inr subscript_Inr raises_Inr split: if_splits)
  done

lemma decrypt_message_never_returns:
  assumes digest: "\<forall>data k h. blake2b L data k 32 = Some h \<longrightarrow> length h = 32"
      and tag: "\<forall>k i t a c. 16 < length t \<longrightarrow> gcm_decrypt P k i t a c = None"
  shows "decrypt_message P L env sender e \<noteq> (Inr text, e')"
proof
  assume "decrypt_message P L env sender e = (Inr text, e')"
  from decrypt_message_Inr [OF this] obtain sb cb ib hb mb shared plaintext where
    mac: "blake2b L (cb @ ib @ mb)
       (drop 32 (hkdf_derive P SHA512 64 (Some sb) ''rimaytik_message_encryption'' shared)) 32 = Some hb"
    and dec: "gcm_decrypt P (take 32 (hkdf_derive P SHA512 64 (Some sb) ''rimaytik_message_encryption'' shared))
       ib hb mb cb = Some plaintext"
    by blast
  from digest mac have "length hb = 32" by blast
  with tag have "gcm_decrypt P (take 32 (hkdf_derive P SHA512 64 (Some sb) ''rimaytik_message_encryption'' shared))
       ib hb mb cb = None" by simp
  with dec show False by simp
qed

lemma try_except_cases:
  "(\<exists>x s'. try_except m w s = (Inl (w x), s')) \<or> (\<exists>a s'. try_except m w s = (Inr a, s'))"
  by (auto simp: try_except_def split: prod.splits sum.splits)

lemma decrypt_message_cases:
  "(\<exists>x e'. decrypt_message P L env sender e = (Inl (Decryption_Failed x), e')) \<or>
   (\<exists>text e'. decrypt_message P L env sender e = (Inr text, e'))"
  unfolding decrypt_message_def by (rule try_except_cases)

text \<open>
  C1 fails on the code. With a BLAKE2b digest of the 32 bytes requested and an AES-GCM
  decryptor that accepts no tag longer than 16 bytes, \<open>decrypt_message\<close> never returns:
  it hands the 32-byte \<open>hmac\<close> of the envelope to the decryptor as the GCM tag, while
  \<open>encrypt_message\<close> drops the tag the encryptor computed. So for every message, the
  envelope that \<open>encrypt_message\<close> produces makes \<open>decrypt_message\<close> raise its
  \<open>ValueError\<close>, whatever the engines of the two sides hold.
\<close>

theorem round_trip_fails:
  assumes digest: "\<forall>data k h. blake2b L data k 32 = Some h \<longrightarrow> length h = 32"
      and tag: "\<forall>k i t a c. 16 < length t \<longrightarrow> gcm_decrypt P k i t a c = None"
      and enc: "encrypt_message P L d message recipient sending = (Inr env, sending')"
  shows "\<exists>x. fst (decrypt_message P L env sender receiving) = Inl (Decryption_Failed x)"
  using decrypt_message_cases [of P L env sender receiving]
    decrypt_message_never_returns [OF digest tag, of env sender receiving]
  by auto




lemma gcm_decrypt_update_fields [simp]:
  "load_pem_public_key (P\<lparr>gcm_decrypt := g\<rparr>) = load_pem_public_key P"
  "exchange (P\<lparr>gcm_decrypt := g\<rparr>) = exchange P"
  "hkdf_derive (P\<lparr>gcm_decrypt := g\<rparr>) = hkdf_derive P"
  "pss_verify (P\<lparr>gcm_decrypt := g\<rparr>) = pss_verify P"
  by simp_all

lemma verify_signature_gcm_decrypt_update [simp]:
  "verify_signature (P\<lparr>gcm_decrypt := g\<rparr>) L data sg pem = verify_signature P L data sg pem"
  by (simp add: verify_signature_def split: option.splits)

lemma decrypt_message_mac_mismatch:
  assumes "ephemeral_public_key env = Some eph" "utf8_encode L eph = Some pem"
    "load_pem_public_key P pem = Some peer_key" "ephemeral_keys e = Some (sk, pk)"
    "exchange P sk peer_key = Some shared"
    "salt env = Some st" "b64decode L st = Some sb"
    "ciphertext env = Some ct" "b64decode L ct = Some cb"
    "iv env = Some it" "b64decode L it = Some ib"
    "hmac env = Some ht" "b64decode L ht = Some hb"
    "metadata env = Some mt" "b64decode L mt = Some mb"
    "blake2b L (cb @ ib @ mb)
       (drop 32 (hkdf_derive P SHA512 64 (Some sb) ''rimaytik_message_encryption'' shared)) 32
     = Some expected"
    "hb \<noteq> expected"
  shows "decrypt_message P L env sender e = (Inl (Decryption_Failed Integrity_Check_Failed), e)"
  using assms
  by (simp add: decrypt_message_def try_except_def and_then_def lib_def subscript_def
      raises_def Let_def)

lemma decrypt_message_bad_signature:
  assumes "ephemeral_public_key env = Some eph" "utf8_encode L eph = Some pem"
    "load_pem_public_key P pem = Some peer_key" "ephemeral_keys e = Some (sk, pk)"
    "exchange P sk peer_key = Some shared"
    "salt env = Some st" "b64decode L st = Some sb"
    "ciphertext env = Some ct" "b64decode L ct = Some cb"
    "iv env = Some it" "b64decode L it = Some ib"
    "hmac env = Some ht" "b64decode L ht = Some hb"
    "metadata env = Some mt" "b64decode L mt = Some mb"
    "blake2b L (cb @ ib @ mb)
       (drop 32 (hkdf_derive P SHA512 64 (Some sb) ''rimaytik_message_encryption'' shared)) 32
     = Some hb"
    "signature env = Some sg"
    "\<not> verify_signature P L (cb @ ib @ hb) sg sender"
  shows "decrypt_message P L env sender e = (Inl (Decryption_Failed Bad_Signature), e)"
  using assms
  by (simp add: decrypt_message_def try_except_def and_then_def lib_def subscript_def
      raises_def Let_def)

text \<open>
  C2. For an envelope whose fields decode and whose MAC can be recomputed:
  if the recomputed MAC differs from the envelope's \<open>hmac\<close>, \<open>decrypt_message\<close> raises
  the integrity failure, before the signature is looked at, leaves the engine untouched,
  and does so whatever the AEAD decryption function is, so that function is not used;
  if the MAC matches and the signature does not verify, it raises the signature failure,
  again independently of the AEAD decryption; and whenever plaintext is returned, the
  MAC matched and the signature verified.
\<close>

theorem decrypt_message_check_order:
  assumes "ephemeral_public_key env = Some eph" "utf8_encode L eph = Some pem"
    "load_pem_public_key P pem = Some peer_key" "ephemeral_keys e = Some (sk, pk)"
    "exchange P sk peer_key = Some shared"
    "salt env = Some st" "b64decode L st = Some sb"
    "ciphertext env = Some ct" "b64decode L ct = Some cb"
    "iv env = Some it" "b64decode L it = Some ib"
    "hmac env = Some ht" "b64decode L ht = Some hb"
    "metadata env = Some mt" "b64decode L mt = Some mb"
    "blake2b L (cb @ ib @ mb)
       (drop 32 (hkdf_derive P SHA512 64 (Some sb) ''rimaytik_message_encryption'' shared)) 32
     = Some expected"
  shows "(hb \<noteq> expected \<longrightarrow>
           (\<forall>g. decrypt_message (P\<lparr>gcm_decrypt := g\<rparr>) L env sender e =
                  (Inl (Decryption_Failed Integrity_Check_Failed), e))) \<and>
         (hb = expected \<and> signature env = Some sg \<and>
          \<not> verify_signature P L (cb @ ib @ hb) sg sender \<longrightarrow>
           (\<forall>g. decrypt_message (P\<lparr>gcm_decrypt := g\<rparr>) L env sender e =
                  (Inl (Decryption_Failed Bad_Signature), e))) \<and>
         (\<forall>text e'. decrypt_message P L env sender e = (Inr text, e') \<longrightarrow>
            hb = expected \<and>
            (\<exists>s. signature env = Some s \<and> verify_signature P L (cb @ ib @ hb) s sender))"
proof (intro conjI impI allI)
  fix g assume "hb \<noteq> expected"
  with assms show "decrypt_message (P\<lparr>gcm_decrypt := g\<rparr>) L env sender e =
                  (Inl (Decryption_Failed Integrity_Check_Failed), e)"
    by (intro decrypt_message_mac_mismatch [where hb = hb and expected = expected]) simp_all
next
  fix g assume "hb = expected \<and> signature env = Some sg \<and>
          \<not> verify_signature P L (cb @ ib @ hb) sg sender"
  with assms show "decrypt_message (P\<lparr>gcm_decrypt := g\<rparr>) L env sender e =
                  (Inl (Decryption_Failed Bad_Signature), e)"
    by (intro decrypt_message_bad_signature [where hb = hb and sg = sg]) auto
next
  fix plain e' assume d: "decrypt_message P L env sender e = (Inr plain, e')"
  from decrypt_message_Inr [OF d] assms show "hb = expected" by auto
next
  fix plain e' assume d: "decrypt_message P L env sender e = (Inr plain, e')"
  from decrypt_message_Inr [OF d] assms
  show "\<exists>s. signature env = Some s \<and> verify_signature P L (cb @ ib @ hb) s sender" by auto
qed









subsection \<open>Closed examples of the engine\<close>

lemma example_encrypt:
  "encrypt_message example_crypto example_stdlib example_draws (map of_char ''hi'') [5]
     (engine_init 2) = (Inr example_envelope, sender_after)"
  by (simp add: encrypt_message_def try_except_def and_then_def lib_def subscript_def
      attribute_def returns_def generate_ephemeral_keypair_def derive_shared_secret_def
      sign_data_def generate_identity_keypair_def get_ephemeral_public_key_pem_def
      security_params_def engine_init_def example_crypto_def example_stdlib_def
      example_draws_def example_envelope_def sender_after_def Let_def)

lemmas engine_defs = decrypt_message_def try_except_def and_then_def lib_def subscript_def
  raises_def attribute_def returns_def verify_signature_def ratchet_keys_def
  example_crypto_def example_stdlib_def example_envelope_def receiver_engine_def
  lenient_crypto_def Let_def char_of_eq_iff

lemma example_decrypt:
  "decrypt_message example_crypto example_stdlib example_envelope [4] receiver_engine
   = (Inl (Decryption_Failed Lib_Error), receiver_engine)"
  by (simp add: engine_defs)

lemma lenient_decrypt:
  "decrypt_message lenient_crypto example_stdlib example_envelope [4] receiver_engine
   = (Inr (map of_char ''hi''),
      receiver_engine\<lparr>session_keys := [[4] \<mapsto>
         \<lparr>chain_key_send = [char_of (15::nat)], chain_key_receive = [char_of (15::nat)],
          message_number = 0\<rparr>]\<rparr>)"
  by (simp add: engine_defs)

theorem round_trip_fails_witness:
  "encrypt_message example_crypto example_stdlib example_draws (map of_char ''hi'') [5]
     (engine_init 2) = (Inr example_envelope, sender_after) \<and>
   (\<exists>x. fst (decrypt_message example_crypto example_stdlib example_envelope [4] receiver_engine)
      = Inl (Decryption_Failed x))"
proof -
  have digest: "\<forall>data k h. blake2b example_stdlib data k 32 = Some h \<longrightarrow> length h = 32"
    by (auto simp: example_stdlib_def split: if_splits)
  have tag: "\<forall>k i t a c. 16 < length t \<longrightarrow> gcm_decrypt example_crypto k i t a c = None"
    by (simp add: example_crypto_def)
  from round_trip_fails [OF digest tag example_encrypt, of "[4]" receiver_engine] example_encrypt
  show ?thesis by blast
qed

subsection \<open>The rotation of the chain keys\<close>




lemma example_mac_length: "[char_of (1::nat)] \<noteq> replicate 32 (CHR ''m'')"
proof
  assume "[char_of (1::nat)] = replicate 32 (CHR ''m'')"
  then have "length [char_of (1::nat)] = length (replicate 32 (CHR ''m''))" by (rule arg_cong)
  then show False by simp
qed

theorem decrypt_message_check_order_witness:
  "(\<forall>g. decrypt_message (example_crypto\<lparr>gcm_decrypt := g\<rparr>) example_stdlib
          (example_envelope\<lparr>hmac := Some [1]\<rparr>) [4] receiver_engine =
        (Inl (Decryption_Failed Integrity_Check_Failed), receiver_engine)) \<and>
   (\<forall>g. decrypt_message (example_crypto\<lparr>gcm_decrypt := g\<rparr>) example_stdlib
          (example_envelope\<lparr>signature := Some [1]\<rparr>) [4] receiver_engine =
        (Inl (Decryption_Failed Bad_Signature), receiver_engine)) \<and>
   (\<exists>plain e' s. decrypt_message lenient_crypto example_stdlib example_envelope [4]
          receiver_engine = (Inr plain, e') \<and>
        signature example_envelope = Some s \<and>
        verify_signature lenient_crypto example_stdlib
          (''ih'' @ ''0123456789ab'' @ replicate 32 (CHR ''m'')) s [4])"
proof -
  note defs = example_crypto_def example_stdlib_def example_envelope_def receiver_engine_def
    lenient_crypto_def verify_signature_def char_of_eq_iff
  have a: "\<forall>g. decrypt_message (example_crypto\<lparr>gcm_decrypt := g\<rparr>) example_stdlib
          (example_envelope\<lparr>hmac := Some [1]\<rparr>) [4] receiver_engine =
        (Inl (Decryption_Failed Integrity_Check_Failed), receiver_engine)"
    using decrypt_message_check_order [of "example_envelope\<lparr>hmac := Some [1]\<rparr>" "[3]"
      example_stdlib "[char_of (3::nat)]" example_crypto 3 receiver_engine 5 5
      "[char_of (15::nat)]" "map of_char ''0123456789abcdef''" "''0123456789abcdef''"
      "map of_char ''ih''" "''ih''" "map of_char ''0123456789ab''" "''0123456789ab''"
      "[1]" "[char_of (1::nat)]" "map of_char (map char_of [123, 125 :: nat])"
      "map char_of [123, 125 :: nat]" "replicate 32 (CHR ''m'')" "[4]" "[1]"]
      example_mac_length
    by (simp add: defs)
  have b: "\<forall>g. decrypt_message (example_crypto\<lparr>gcm_decrypt := g\<rparr>) example_stdlib
          (example_envelope\<lparr>signature := Some [1]\<rparr>) [4] receiver_engine =
        (Inl (Decryption_Failed Bad_Signature), receiver_engine)"
    using decrypt_message_check_order [of "example_envelope\<lparr>signature := Some [1]\<rparr>" "[3]"
      example_stdlib "[char_of (3::nat)]" example_crypto 3 receiver_engine 5 5
      "[char_of (15::nat)]" "map of_char ''0123456789abcdef''" "''0123456789abcdef''"
      "map of_char ''ih''" "''ih''" "map of_char ''0123456789ab''" "''0123456789ab''"
      "map of_char (replicate 32 (CHR ''m''))" "replicate 32 (CHR ''m'')"
      "map of_char (map char_of [123, 125 :: nat])"
      "map char_of [123, 125 :: nat]" "replicate 32 (CHR ''m'')" "[4]" "[1]"]
    by (simp add: defs)
  have c: "\<exists>plain e' s. decrypt_message lenient_crypto example_stdlib example_envelope [4]
          receiver_engine = (Inr plain, e') \<and>
        signature example_envelope = Some s \<and>
        verify_signature lenient_crypto example_stdlib
          (''ih'' @ ''0123456789ab'' @ replicate 32 (CHR ''m'')) s [4]"
    using decrypt_message_check_order [of example_envelope "[3]"
      example_stdlib "[char_of (3::nat)]" lenient_crypto 3 receiver_engine 5 5
      "[char_of (15::nat)]" "map of_char ''0123456789abcdef''" "''0123456789abcdef''"
      "map of_char ''ih''" "''ih''" "map of_char ''0123456789ab''" "''0123456789ab''"
      "map of_char (replicate 32 (CHR ''m''))" "replicate 32 (CHR ''m'')"
      "map of_char (map char_of [123, 125 :: nat])"
      "map char_of [123, 125 :: nat]" "replicate 32 (CHR ''m'')" "[4]" "[1]"]
      lenient_decrypt
    by (simp add: defs)
  from a b c show ?thesis by blast
qed


section \<open>Properties of the account store\<close>








section \<open>Properties of the connection registry and relay\<close>

lemma register_guard:
  assumes "reg_password request = Some p" and "length p < 8"
  shows "handle_rimaytik_register S dr srv request w client_ip =
     (Inr (new_message (uuid_hex dr 0) (clock dr) RIMAYTIK_ERROR
        [(''error'', V_text (if truthy_str (reg_username request) \<and>
                                 truthy_str (reg_public_key request) \<and> p \<noteq> []
                              then Password_Too_Short else Insufficient_Registration_Data))]
        None None None None), srv)"
  using assms
  by (auto simp: handle_rimaytik_register_def truthy_str_def split: option.splits)

lemma register_no_password:
  assumes "reg_password request = None"
  shows "handle_rimaytik_register S dr srv request w client_ip =
     (Inr (new_message (uuid_hex dr 0) (clock dr) RIMAYTIK_ERROR
        [(''error'', V_text Insufficient_Registration_Data)] None None None None), srv)"
  using assms by (simp add: handle_rimaytik_register_def truthy_str_def)

text \<open>
  C10. A registration request whose password is absent or shorter than 8 characters gets
  an error message back (the missing-data error when the username, the public key or
  the password is absent or empty, the short-password error otherwise), and the server
  is returned as it was: the account store is not touched, so no user row and no session
  row is written, no connection entry and no online name is added, and nothing is sent
  to any connection.
\<close>

theorem register_short_password_rejected:
  "(reg_password request = None \<or> (\<exists>p. reg_password request = Some p \<and> length p < 8)) \<longrightarrow>
   handle_rimaytik_register S dr srv request w client_ip =
     (Inr (new_message (uuid_hex dr 0) (clock dr) RIMAYTIK_ERROR
        [(''error'', V_text (if truthy_str (reg_username request) \<and>
                                 truthy_str (reg_public_key request) \<and>
                                 truthy_str (reg_password request)
                              then Password_Too_Short else Insufficient_Registration_Data))]
        None None None None), srv)"
proof
  assume "reg_password request = None \<or> (\<exists>p. reg_password request = Some p \<and> length p < 8)"
  then show "handle_rimaytik_register S dr srv request w client_ip =
     (Inr (new_message (uuid_hex dr 0) (clock dr) RIMAYTIK_ERROR
        [(''error'', V_text (if truthy_str (reg_username request) \<and>
                                 truthy_str (reg_public_key request) \<and>
                                 truthy_str (reg_password request)
                              then Password_Too_Short else Insufficient_Registration_Data))]
        None None None None), srv)"
  proof
    assume n: "reg_password request = None"
    then have "\<not> truthy_str (reg_password request)" by (simp add: truthy_str_def)
    with register_no_password [OF n] show ?thesis by simp
  next
    assume "\<exists>p. reg_password request = Some p \<and> length p < 8"
    then obtain p where p: "reg_password request = Some p" "length p < 8" by blast
    then have "truthy_str (reg_password request) = (p \<noteq> [])" by (simp add: truthy_str_def)
    with register_guard [OF p] show ?thesis by simp
  qed
qed

text \<open>
  C4 fails on the code. For a username in the connection registry \<open>handle_user_logout\<close>
  deletes the entry and discards the name from the online set, then raises
  \<open>AttributeError\<close> at \<open>self.cursor\<close>: the account store still has the status it had,
  and no presence update is written to any connection.
\<close>

theorem logout_stops_at_cursor:
  "name \<in> fst ` set (clients srv) \<longrightarrow>
   handle_user_logout S dr srv (Some name) =
     (Inl AttributeError,
      srv\<lparr>clients := AList.delete name (clients srv),
          online_users := online_users srv - {name}\<rparr>)"
  by (simp add: handle_user_logout_def self_cursor_def Let_def)






theorem logout_stops_at_cursor_witness:
  "handle_user_logout example_server_lib example_draws_server example_server (Some [97]) =
     (Inl AttributeError, example_server\<lparr>clients := [], online_users := {}\<rparr>) \<and>
   map u_status (users (db (example_server\<lparr>clients := [], online_users := {}\<rparr>))) = [Online] \<and>
   outbox (net (example_server\<lparr>clients := [], online_users := {}\<rparr>)) 7 = []"
proof -
  have c: "[97] \<in> fst ` set (clients example_server)"
    by (simp add: example_server_def)
  have e: "example_server\<lparr>clients := AList.delete [97] (clients example_server),
          online_users := online_users example_server - {[97]}\<rparr> =
        example_server\<lparr>clients := [], online_users := {}\<rparr>"
    by (simp add: example_server_def)
  from logout_stops_at_cursor [of "[97]" example_server example_server_lib
      example_draws_server] c e
  have "handle_user_logout example_server_lib example_draws_server example_server (Some [97]) =
     (Inl AttributeError, example_server\<lparr>clients := [], online_users := {}\<rparr>)" by simp
  then show ?thesis by (simp add: example_server_def alice_row_def empty_database_def)
qed

theorem register_short_password_rejected_witness:
  "handle_rimaytik_register example_server_lib example_draws_server example_server
     \<lparr>reg_username = Some [98], reg_display_name = None, reg_public_key = Some [107],
      reg_password = Some [115, 104, 111, 114, 116], reg_security_level = None\<rparr> 8 [49] =
     (Inr (new_message [48] 1000 RIMAYTIK_ERROR [(''error'', V_text Password_Too_Short)]
        None None None None), example_server) \<and>
   handle_rimaytik_register example_server_lib example_draws_server example_server
     \<lparr>reg_username = Some [98], reg_display_name = None, reg_public_key = Some [107],
      reg_password = None, reg_security_level = None\<rparr> 8 [49] =
     (Inr (new_message [48] 1000 RIMAYTIK_ERROR
        [(''error'', V_text Insufficient_Registration_Data)] None None None None),
      example_server)"
  using register_short_password_rejected [of
      "\<lparr>reg_username = Some [98], reg_display_name = None, reg_public_key = Some [107],
        reg_password = Some [115, 104, 111, 114, 116], reg_security_level = None\<rparr>"
      example_server_lib example_draws_server example_server 8 "[49]"]
    register_short_password_rejected [of
      "\<lparr>reg_username = Some [98], reg_display_name = None, reg_public_key = Some [107],
        reg_password = None, reg_security_level = None\<rparr>"
      example_server_lib example_draws_server example_server 8 "[49]"]
  by (simp add: truthy_str_def example_draws_server_def)

end
